theory Spec2Isabelle
  imports Main "HOL-Library.Multiset"
begin

section \<open>Python values used by the document processors\<close>

text \<open>
  Exceptions are values.  Every class below derives from Python's \<open>Exception\<close>; they are
  the failures that the libraries called by the repository (fitz, docx, yaml, os, re,
  requests) report.  \<open>str(e)\<close> is the message.
\<close>

datatype exc_class =
  RequestException | TypeError | ValueError | KeyError | IndexError
  | AttributeError | OSError | RuntimeError

datatype exn = Exn exc_class string

fun exc_class_of :: "exn \<Rightarrow> exc_class" where
  "exc_class_of (Exn c m) = c"

fun str_exn :: "exn \<Rightarrow> string" where
  "str_exn (Exn c m) = m"

text \<open>
  The class named in an \<open>except\<close> clause: \<open>except Exception\<close> matches every class
  above, \<open>except requests.exceptions.RequestException\<close> only that one.
\<close>

datatype handler_class = CatchException | CatchRequestException

fun handles :: "handler_class \<Rightarrow> exn \<Rightarrow> bool" where
  "handles CatchException e = True"
| "handles CatchRequestException e = (exc_class_of e = RequestException)"

text \<open>
  \<open>try: body  except C as e: logger.error(msg(e)); return h(e)\<close>.  The body comes with
  the error messages its callees have logged; an exception that \<open>C\<close> does not match
  propagates.
\<close>

definition try_except ::
  "(exn + 'a) \<times> string list \<Rightarrow> handler_class \<Rightarrow> (exn \<Rightarrow> string) \<Rightarrow> (exn \<Rightarrow> 'a)
     \<Rightarrow> (exn + 'a) \<times> string list" where
  "try_except body c msg h =
     (case body of
        (Inr v, log) \<Rightarrow> (Inr v, log)
      | (Inl e, log) \<Rightarrow> if handles c e then (Inr (h e), log @ [msg e]) else (Inl e, log))"

subsection \<open>Strings\<close>

text \<open>
  A Python \<open>str\<close> is modelled as a \<open>string\<close>; a \<open>char\<close> stands for a code point below
  256.  \<open>isspace\<close> is \<open>str.isspace\<close> on that range.
\<close>

definition isspace :: "char \<Rightarrow> bool" where
  "isspace c = (let n = (of_char c :: nat) in
     (9 \<le> n \<and> n \<le> 13) \<or> (28 \<le> n \<and> n \<le> 32) \<or> n = 133 \<or> n = 160)"

definition strip :: "string \<Rightarrow> string" where
  "strip s = rev (dropWhile isspace (rev (dropWhile isspace s)))"

definition startswith :: "string \<Rightarrow> string \<Rightarrow> bool" where
  "startswith s p = (take (length p) s = p)"

definition endswith :: "string \<Rightarrow> string \<Rightarrow> bool" where
  "endswith s p = (length p \<le> length s \<and> drop (length s - length p) s = p)"

definition lower_char :: "char \<Rightarrow> char" where
  "lower_char c = (let n = (of_char c :: nat) in
     if (65 \<le> n \<and> n \<le> 90) \<or> (192 \<le> n \<and> n \<le> 222 \<and> n \<noteq> 215)
     then char_of (n + 32) else c)"

definition lower :: "string \<Rightarrow> string" where
  "lower s = map lower_char s"

text \<open>\<open>sep.join(xs)\<close>\<close>

fun join :: "string \<Rightarrow> string list \<Rightarrow> string" where
  "join sep [] = []"
| "join sep [x] = x"
| "join sep (x # y # ys) = x @ sep @ join sep (y # ys)"

definition nl :: char where
  "nl = CHR 0x0A"

text \<open>\<open>str(n)\<close> for a non-negative integer.\<close>

definition digit_char :: "nat \<Rightarrow> char" where
  "digit_char d = char_of (48 + d)"

fun str_nat_fuel :: "nat \<Rightarrow> nat \<Rightarrow> string" where
  "str_nat_fuel 0 n = [digit_char (n mod 10)]"
| "str_nat_fuel (Suc k) n =
     (if n < 10 then [digit_char n] else str_nat_fuel k (n div 10) @ [digit_char (n mod 10)])"

definition str_nat :: "nat \<Rightarrow> string" where
  "str_nat n = str_nat_fuel n n"

text \<open>
  \<open>re.findall(r'\b\w+\b', s)\<close> returns the maximal runs of word characters.  The regular
  expression engine's table of word characters is a parameter \<open>w\<close>.
\<close>

fun findall_words :: "(char \<Rightarrow> bool) \<Rightarrow> string \<Rightarrow> string \<Rightarrow> string list" where
  "findall_words w cur [] = (if cur = [] then [] else [cur])"
| "findall_words w cur (c # cs) =
     (if w c then findall_words w (cur @ [c]) cs
      else (if cur = [] then [] else [cur]) @ findall_words w [] cs)"

text \<open>
  The argument of \<open>re.findall\<close> is whatever \<open>extract_text\<close> returned: a \<open>str\<close>, or a
  \<open>(str, list)\<close> tuple.  On anything but a string \<open>re.findall\<close> raises \<open>TypeError\<close>.
\<close>

datatype pyval = PyStr string | PyTuple string "string list"

fun re_findall_words :: "(char \<Rightarrow> bool) \<Rightarrow> pyval \<Rightarrow> exn + string list" where
  "re_findall_words w (PyStr s) = Inr (findall_words w [] s)"
| "re_findall_words w (PyTuple s xs) = Inl (Exn TypeError ''expected string or bytes-like object'')"

text \<open>\<open>s.replace(old, new)\<close>: the leftmost non-overlapping occurrences; with an empty
  \<open>old\<close>, \<open>new\<close> goes before every character and at the end.\<close>

fun replace_ne :: "string \<Rightarrow> string \<Rightarrow> string \<Rightarrow> string" where
  "replace_ne old new [] = []"
| "replace_ne old new (c # cs) =
     (if startswith (c # cs) old then new @ replace_ne old new (drop (length old - 1) cs)
      else c # replace_ne old new cs)"

definition py_replace :: "string \<Rightarrow> string \<Rightarrow> string \<Rightarrow> string" where
  "py_replace s old new =
     (if old = [] then new @ concat (map (\<lambda>c. c # new) s) else replace_ne old new s)"

text \<open>\<open>int(s)\<close>: surrounding whitespace, an optional sign, decimal digits with single
  underscores between them; anything else raises \<open>ValueError\<close>.\<close>

definition is_digit :: "char \<Rightarrow> bool" where
  "is_digit c = (let n = (of_char c :: nat) in 48 \<le> n \<and> n \<le> 57)"

fun digits_ok :: "string \<Rightarrow> bool" where
  "digits_ok [] = False"
| "digits_ok [c] = is_digit c"
| "digits_ok (c # d # cs) =
     (is_digit c \<and> (if d = CHR ''_'' then digits_ok cs else digits_ok (d # cs)))"

definition digits_value :: "string \<Rightarrow> int" where
  "digits_value s = foldl (\<lambda>a c. 10 * a + (of_char c - 48)) 0 (filter is_digit s)"

definition py_int :: "string \<Rightarrow> exn + int" where
  "py_int s =
     (let t = strip s;
          signed = (t \<noteq> [] \<and> (hd t = CHR ''-'' \<or> hd t = CHR ''+''));
          body = (if signed then tl t else t)
      in if digits_ok body
         then Inr (if signed \<and> hd t = CHR ''-'' then - digits_value body else digits_value body)
         else Inl (Exn ValueError (''invalid literal for int() with base 10: '' @ s)))"

subsection \<open>Paths (posixpath)\<close>

definition rfind :: "char \<Rightarrow> string \<Rightarrow> int" where
  "rfind c p =
     (if c \<in> set p then int (length p) - 1 - int (length (takeWhile (\<lambda>x. x \<noteq> c) (rev p)))
      else - 1)"

definition basename :: "string \<Rightarrow> string" where
  "basename p = drop (nat (rfind (CHR ''/'') p + 1)) p"

definition splitext :: "string \<Rightarrow> string \<times> string" where
  "splitext p =
     (let sepIndex = rfind (CHR ''/'') p; dotIndex = rfind (CHR ''.'') p in
      if dotIndex > sepIndex \<and>
         list_ex (\<lambda>c. c \<noteq> CHR ''.'')
           (take (nat dotIndex - nat (sepIndex + 1)) (drop (nat (sepIndex + 1)) p))
      then (take (nat dotIndex) p, drop (nat dotIndex) p)
      else (p, []))"

definition path_join :: "string \<Rightarrow> string \<Rightarrow> string" where
  "path_join a b =
     (if startswith b ''/'' then b
      else if a = [] \<or> endswith a ''/'' then a @ b
      else a @ ''/'' @ b)"

text \<open>The path both converters write: \<open>os.path.join(output_dir, f"{name}.md")\<close>.\<close>

definition md_output_path :: "string \<Rightarrow> string \<Rightarrow> string" where
  "md_output_path file_path output_dir =
     (let filename = basename file_path;
          name = fst (splitext filename)
      in path_join output_dir (name @ ''.md''))"

subsection \<open>Values loaded from YAML\<close>

text \<open>
  What \<open>yaml.safe_load\<close> returns.  The keys of a mapping are strings: a key of another
  type never equals one of the string keys the code looks up.
\<close>

datatype yaml =
  YNull | YBool bool | YInt int | YStr string | YList "yaml list"
  | YDict "(string \<times> yaml) list"

fun is_dict :: "yaml \<Rightarrow> bool" where
  "is_dict (YDict d) = True"
| "is_dict v = False"

fun dict_items :: "yaml \<Rightarrow> (string \<times> yaml) list" where
  "dict_items (YDict d) = d"
| "dict_items v = []"

fun truthy :: "yaml \<Rightarrow> bool" where
  "truthy YNull = False"
| "truthy (YBool b) = b"
| "truthy (YInt i) = (i \<noteq> 0)"
| "truthy (YStr s) = (s \<noteq> [])"
| "truthy (YList xs) = (xs \<noteq> [])"
| "truthy (YDict d) = (d \<noteq> [])"

text \<open>\<open>sub in s\<close> on strings.\<close>

fun contains :: "string \<Rightarrow> string \<Rightarrow> bool" where
  "contains [] sub = (sub = [])"
| "contains (c # cs) sub = (startswith (c # cs) sub \<or> contains cs sub)"

text \<open>\<open>key in v\<close>, \<open>v[key]\<close> and \<open>v[key] = x\<close> for a string \<open>key\<close>.\<close>

fun py_in :: "string \<Rightarrow> yaml \<Rightarrow> exn + bool" where
  "py_in key (YDict d) = Inr (key \<in> fst ` set d)"
| "py_in key (YList xs) = Inr (YStr key \<in> set xs)"
| "py_in key (YStr s) = Inr (contains s key)"
| "py_in key v = Inl (Exn TypeError ''argument is not iterable'')"

fun py_getitem :: "yaml \<Rightarrow> string \<Rightarrow> exn + yaml" where
  "py_getitem (YDict d) key =
     (case map_of d key of None \<Rightarrow> Inl (Exn KeyError key) | Some v \<Rightarrow> Inr v)"
| "py_getitem (YList xs) key = Inl (Exn TypeError ''list indices must be integers or slices, not str'')"
| "py_getitem (YStr s) key = Inl (Exn TypeError ''string indices must be integers'')"
| "py_getitem v key = Inl (Exn TypeError ''object is not subscriptable'')"

fun dict_update :: "(string \<times> yaml) list \<Rightarrow> string \<Rightarrow> yaml \<Rightarrow> (string \<times> yaml) list" where
  "dict_update [] key x = [(key, x)]"
| "dict_update ((k, v) # d) key x =
     (if k = key then (k, x) # d else (k, v) # dict_update d key x)"

fun py_setitem :: "yaml \<Rightarrow> string \<Rightarrow> yaml \<Rightarrow> exn + yaml" where
  "py_setitem (YDict d) key x = Inr (YDict (dict_update d key x))"
| "py_setitem (YList xs) key x = Inl (Exn TypeError ''list indices must be integers or slices, not str'')"
| "py_setitem v key x = Inl (Exn TypeError ''object does not support item assignment'')"

text \<open>\<open>v.get(key)\<close> and \<open>v.items()\<close> exist on dictionaries only.\<close>

fun py_get :: "yaml \<Rightarrow> string \<Rightarrow> exn + yaml option" where
  "py_get (YDict d) key = Inr (map_of d key)"
| "py_get v key = Inl (Exn AttributeError ''object has no attribute get'')"

fun py_items :: "yaml \<Rightarrow> exn + (string \<times> yaml) list" where
  "py_items (YDict d) = Inr d"
| "py_items v = Inl (Exn AttributeError ''object has no attribute items'')"

section \<open>The documents and the surroundings\<close>

record run =
  run_text :: string
  run_bold :: bool
  run_italic :: bool

record docx_paragraph =
  para_text :: string
  style_name :: string
  runs :: "run list"

text \<open>
  A relationship of the document part: \<open>rel_is_image\<close> is \<open>"image" in rel.reltype\<close>,
  \<open>rel_save\<close> the outcome of writing the blob to the temporary directory (the path written,
  or the exception of \<open>open\<close>/\<open>write\<close>).
\<close>

record rel =
  rel_is_image :: bool
  rel_save :: "exn + string"

text \<open>A table is the list of its rows, a row the list of its cells' texts.\<close>

record word_doc =
  paragraphs :: "docx_paragraph list"
  tables :: "string list list list"
  rels :: "rel list"
  core_title :: string
  core_author :: string
  core_created :: "string option"
  core_modified :: "string option"
  core_subject :: string
  core_keywords :: string

text \<open>
  A page of a PDF: \<open>get_text\<close> is \<open>page.get_text()\<close>; \<open>ocr\<close> is the rendering of the page
  and \<open>pytesseract.image_to_string\<close> on it; \<open>get_images\<close> is \<open>page.get_images(full=True)\<close>,
  each entry the outcome of extracting that image and saving it (\<open>None\<close>: no exception).
\<close>

record pdf_page =
  get_text :: "exn + string"
  ocr :: "exn + string"
  get_images :: "exn + exn option list"

record pdf_doc =
  doc_metadata :: "(string \<times> string) list option"
  pages :: "pdf_page list"

text \<open>
  What the processors read from their surroundings.  The surroundings are fixed during
  a call: what the processors write is returned, not read back.  \<open>walk\<close> is \<open>os.walk\<close>
  reduced to its \<open>(root, files)\<close> pairs; \<open>open_w\<close> is \<open>open(path, "w")\<close>.
\<close>

record world =
  Document :: "string \<Rightarrow> exn + word_doc"
  fitz_open :: "string \<Rightarrow> exn + pdf_doc"
  getsize :: "string \<Rightarrow> exn + nat"
  open_w :: "string \<Rightarrow> exn option"
  path_exists :: "string \<Rightarrow> bool"
  makedirs :: "string \<Rightarrow> exn option"
  walk :: "string \<Rightarrow> (string \<times> string list) list"
  copy2 :: "string \<Rightarrow> string \<Rightarrow> exn option"
  word_char :: "char \<Rightarrow> bool"
  yaml_load :: "string \<Rightarrow> exn + yaml"

text \<open>A dictionary whose order of insertion matters is an association list.\<close>

type_synonym metadata = "(string \<times> string) list"

definition put_if :: "bool \<Rightarrow> string \<Rightarrow> string \<Rightarrow> metadata \<Rightarrow> metadata" where
  "put_if b k v m = (if b then m @ [(k, v)] else m)"

definition put_opt :: "string \<Rightarrow> string option \<Rightarrow> metadata \<Rightarrow> metadata" where
  "put_opt k v m = (case v of None \<Rightarrow> m | Some s \<Rightarrow> m @ [(k, s)])"

text \<open>
  What a conversion leaves behind: the value returned (or the exception raised), the
  strings written to the markdown file in order (\<open>None\<close>: the file was never opened), and
  the messages given to \<open>logger.error\<close>.
\<close>

record conversion =
  returned :: "exn + string"
  md_file :: "string list option"
  logged :: "string list"

text \<open>The YAML front matter both converters write from the metadata dictionary.\<close>

fun md_metadata_items :: "metadata \<Rightarrow> string list \<Rightarrow> string list" where
  "md_metadata_items [] md = md"
| "md_metadata_items ((key, val) # kvs) md =
     md_metadata_items kvs
       (if val \<noteq> [] \<and> strip val \<noteq> [] then md @ [key @ '': '' @ val @ [nl]] else md)"

definition md_frontmatter :: "metadata \<Rightarrow> string list \<Rightarrow> string list" where
  "md_frontmatter metadata md =
     (let md = md @ [''---'' @ [nl]];
          md = md_metadata_items metadata md
      in md @ [''---'' @ [nl, nl]])"

section \<open>word_processor.py\<close>

record word_config =
  include_images :: bool

fun word_text_paragraphs :: "docx_paragraph list \<Rightarrow> string list \<Rightarrow> string list" where
  "word_text_paragraphs [] full_text = full_text"
| "word_text_paragraphs (p # ps) full_text =
     (if strip (para_text p) \<noteq> [] then word_text_paragraphs ps (full_text @ [para_text p])
      else word_text_paragraphs ps full_text)"

fun word_text_rows :: "string list list \<Rightarrow> string list \<Rightarrow> string list" where
  "word_text_rows [] full_text = full_text"
| "word_text_rows (row # rows) full_text =
     word_text_rows rows (full_text @ [join '' | '' (map strip row)])"

fun word_text_tables :: "string list list list \<Rightarrow> string list \<Rightarrow> string list" where
  "word_text_tables [] full_text = full_text"
| "word_text_tables (t # ts) full_text = word_text_tables ts (word_text_rows t full_text)"

fun word_text_images :: "rel list \<Rightarrow> string list \<Rightarrow> exn + string list" where
  "word_text_images [] images = Inr images"
| "word_text_images (r # rs) images =
     (if rel_is_image r then
        (case rel_save r of
           Inl e \<Rightarrow> Inl e
         | Inr img_path \<Rightarrow> word_text_images rs (images @ [img_path]))
      else word_text_images rs images)"

text \<open>The body of the \<open>try\<close> of \<open>WordDocumentProcessor.extract_text\<close>.\<close>

definition word_extract_text_body :: "world \<Rightarrow> word_config \<Rightarrow> string \<Rightarrow> exn + pyval" where
  "word_extract_text_body env cfg file_path =
     (case Document env file_path of
        Inl e \<Rightarrow> Inl e
      | Inr doc \<Rightarrow>
          let full_text = word_text_paragraphs (paragraphs doc) [];
              full_text = word_text_tables (tables doc) full_text
          in (case (if include_images cfg then word_text_images (rels doc) [] else Inr []) of
                Inl e \<Rightarrow> Inl e
              | Inr images \<Rightarrow> Inr (PyTuple (join [nl, nl] full_text) images)))"

definition word_extract_text ::
  "world \<Rightarrow> word_config \<Rightarrow> string \<Rightarrow> (exn + pyval) \<times> string list" where
  "word_extract_text env cfg file_path =
     try_except (word_extract_text_body env cfg file_path, []) CatchException
       (\<lambda>e. ''Error extracting text from Word document: '' @ str_exn e)
       (\<lambda>e. PyTuple (''Error: Could not extract text from document ('' @ str_exn e @ '')'') [])"

definition word_core_metadata :: "word_doc \<Rightarrow> metadata" where
  "word_core_metadata doc =
     (let metadata = [];
          metadata = put_if (core_title doc \<noteq> []) ''title'' (core_title doc) metadata;
          metadata = put_if (core_author doc \<noteq> []) ''author'' (core_author doc) metadata;
          metadata = put_opt ''created'' (core_created doc) metadata;
          metadata = put_opt ''modified'' (core_modified doc) metadata;
          metadata = put_if (core_subject doc \<noteq> []) ''subject'' (core_subject doc) metadata;
          metadata = put_if (core_keywords doc \<noteq> []) ''keywords'' (core_keywords doc) metadata
      in metadata)"

text \<open>The body of the \<open>try\<close> of \<open>WordDocumentProcessor.extract_metadata\<close>.\<close>

definition word_extract_metadata_body ::
  "world \<Rightarrow> word_config \<Rightarrow> string \<Rightarrow> (exn + metadata) \<times> string list" where
  "word_extract_metadata_body env cfg file_path =
     (case Document env file_path of
        Inl e \<Rightarrow> (Inl e, [])
      | Inr doc \<Rightarrow>
          let metadata = word_core_metadata doc;
              (text, log) = word_extract_text env cfg file_path
          in (case text of
                Inl e \<Rightarrow> (Inl e, log)
              | Inr text \<Rightarrow>
                  (case re_findall_words (word_char env) text of
                     Inl e \<Rightarrow> (Inl e, log)
                   | Inr ws \<Rightarrow>
                       let metadata = metadata @ [(''word_count'', str_nat (length ws))] in
                       (case getsize env file_path of
                          Inl e \<Rightarrow> (Inl e, log)
                        | Inr n \<Rightarrow> (Inr (metadata @ [(''file_size'', str_nat n)]), log)))))"

definition word_extract_metadata ::
  "world \<Rightarrow> word_config \<Rightarrow> string \<Rightarrow> (exn + metadata) \<times> string list" where
  "word_extract_metadata env cfg file_path =
     try_except (word_extract_metadata_body env cfg file_path) CatchException
       (\<lambda>e. ''Error extracting metadata from Word document: '' @ str_exn e)
       (\<lambda>e. [(''error'', ''Could not extract metadata ('' @ str_exn e @ '')'')])"

text \<open>The two loops over the runs of a paragraph that is not a heading.\<close>

fun word_bold :: "run list \<Rightarrow> string \<Rightarrow> string" where
  "word_bold [] text = text"
| "word_bold (r # rs) text =
     word_bold rs
       (if run_bold r then py_replace text (run_text r) (''**'' @ run_text r @ ''**'')
        else text)"

fun word_italic :: "run list \<Rightarrow> string \<Rightarrow> string" where
  "word_italic [] text = text"
| "word_italic (r # rs) text =
     word_italic rs
       (if run_italic r then py_replace text (run_text r) (''*'' @ run_text r @ ''*'')
        else text)"

text \<open>The loop over \<open>doc.paragraphs\<close>; \<open>int\<close> may raise, which leaves the loop.\<close>

fun word_md_paragraphs :: "docx_paragraph list \<Rightarrow> string list \<Rightarrow> exn option \<times> string list" where
  "word_md_paragraphs [] md = (None, md)"
| "word_md_paragraphs (p # ps) md =
     (if strip (para_text p) = [] then word_md_paragraphs ps md
      else if startswith (style_name p) ''Heading'' then
        (case py_int (py_replace (style_name p) ''Heading'' []) of
           Inl e \<Rightarrow> (Some e, md)
         | Inr level \<Rightarrow>
             word_md_paragraphs ps
               (md @ [replicate (nat level) (CHR ''#'') @ '' '' @ para_text p @ [nl, nl]]))
      else
        (let text = para_text p;
             text = word_bold (runs p) text;
             text = word_italic (runs p) text
         in word_md_paragraphs ps (md @ [text @ [nl, nl]])))"

fun word_md_rows :: "string list list \<Rightarrow> string list \<Rightarrow> string list" where
  "word_md_rows [] md = md"
| "word_md_rows (row # rows) md =
     word_md_rows rows (md @ [''| '' @ join '' | '' (map strip row) @ '' |'' @ [nl]])"

text \<open>The loop over \<open>doc.tables\<close>; \<open>table.rows[0]\<close> raises on a table without rows.\<close>

fun word_md_tables :: "string list list list \<Rightarrow> string list \<Rightarrow> exn option \<times> string list" where
  "word_md_tables [] md = (None, md)"
| "word_md_tables (t # ts) md =
     (case t of
        [] \<Rightarrow> (Some (Exn IndexError ''list index out of range''), md)
      | row0 # rows \<Rightarrow>
          let header_cells = map strip row0;
              md = md @ [''| '' @ join '' | '' header_cells @ '' |'' @ [nl]];
              md = md @ [''| '' @ join '' | '' (replicate (length header_cells) ''---'')
                          @ '' |'' @ [nl]];
              md = word_md_rows rows md;
              md = md @ [[nl]]
          in word_md_tables ts md)"

text \<open>
  The body of the \<open>try\<close> of \<open>WordDocumentProcessor.convert_to_markdown\<close>: the exception
  that leaves it, if any, with what was written and logged until then.  The list \<open>images\<close>
  of the source stays empty, so its loop writes nothing.
\<close>

definition word_convert_body ::
  "world \<Rightarrow> word_config \<Rightarrow> string \<Rightarrow> string \<Rightarrow> exn option \<times> string list option \<times> string list"
  where
  "word_convert_body env cfg file_path output_path =
     (case Document env file_path of
        Inl e \<Rightarrow> (Some e, None, [])
      | Inr doc \<Rightarrow>
          (case open_w env output_path of
             Some e \<Rightarrow> (Some e, None, [])
           | None \<Rightarrow>
               let (m, log) = word_extract_metadata env cfg file_path in
               (case m of
                  Inl e \<Rightarrow> (Some e, Some [], log)
                | Inr metadata \<Rightarrow>
                    let md = md_frontmatter metadata [] in
                    (case word_md_paragraphs (paragraphs doc) md of
                       (Some e, md) \<Rightarrow> (Some e, Some md, log)
                     | (None, md) \<Rightarrow>
                         (case word_md_tables (tables doc) md of
                            (Some e, md) \<Rightarrow> (Some e, Some md, log)
                          | (None, md) \<Rightarrow> (None, Some md, log))))))"

definition word_convert_to_markdown ::
  "world \<Rightarrow> word_config \<Rightarrow> string \<Rightarrow> string \<Rightarrow> conversion" where
  "word_convert_to_markdown env cfg file_path output_dir =
     (let output_path = md_output_path file_path output_dir;
          (raised, md, log) = word_convert_body env cfg file_path output_path;
          (r, log) = try_except
             ((case raised of None \<Rightarrow> Inr output_path | Some e \<Rightarrow> Inl e), log) CatchException
             (\<lambda>e. ''Error converting Word document to Markdown: '' @ str_exn e)
             (\<lambda>e. ''Error: Could not convert document to Markdown ('' @ str_exn e @ '')'')
      in \<lparr>returned = r, md_file = md, logged = log\<rparr>)"

section \<open>pdf_processor.py\<close>

record pdf_config =
  ocr_enabled :: bool
  extract_images :: bool

text \<open>\<open>_extract_text_with_ocr\<close>: an exception is logged and gives the empty string.\<close>

definition extract_text_with_ocr :: "pdf_page \<Rightarrow> string \<times> string list" where
  "extract_text_with_ocr page =
     (case ocr page of
        Inr text \<Rightarrow> (text, [])
      | Inl e \<Rightarrow> ([], [''OCR error: '' @ str_exn e]))"

text \<open>
  The text kept for a page whose \<open>get_text()\<close> gave \<open>text\<close>, with what the OCR logs:
  first as \<open>extract_text\<close> decides it, then as \<open>convert_to_markdown\<close> does.
\<close>

definition pdf_extract_page_text :: "pdf_config \<Rightarrow> pdf_page \<Rightarrow> string \<Rightarrow> string \<times> string list" where
  "pdf_extract_page_text cfg page text =
     (if ocr_enabled cfg \<and> (strip text = [] \<or> length text < 50)
      then extract_text_with_ocr page
      else (text, []))"

definition pdf_convert_page_text :: "pdf_config \<Rightarrow> pdf_page \<Rightarrow> string \<Rightarrow> string \<times> string list" where
  "pdf_convert_page_text cfg page text =
     (if strip text = [] \<or> length text < 50
      then (if ocr_enabled cfg then extract_text_with_ocr page else (text, []))
      else (text, []))"

text \<open>The loop of \<open>PDFDocumentProcessor.extract_text\<close>.\<close>

fun pdf_text_pages ::
  "pdf_config \<Rightarrow> pdf_page list \<Rightarrow> string list \<Rightarrow> string list \<Rightarrow> (exn + string list) \<times> string list"
  where
  "pdf_text_pages cfg [] full_text log = (Inr full_text, log)"
| "pdf_text_pages cfg (page # ps) full_text log =
     (case get_text page of
        Inl e \<Rightarrow> (Inl e, log)
      | Inr text \<Rightarrow>
          let (text, l) = pdf_extract_page_text cfg page text
          in pdf_text_pages cfg ps (full_text @ [text]) (log @ l))"

definition pdf_extract_text :: "world \<Rightarrow> pdf_config \<Rightarrow> string \<Rightarrow> (exn + string) \<times> string list" where
  "pdf_extract_text env cfg file_path =
     try_except
       (case fitz_open env file_path of
          Inl e \<Rightarrow> (Inl e, [])
        | Inr doc \<Rightarrow>
            (case pdf_text_pages cfg (pages doc) [] [] of
               (Inl e, log) \<Rightarrow> (Inl e, log)
             | (Inr full_text, log) \<Rightarrow> (Inr (join [nl, nl] full_text), log)))
       CatchException
       (\<lambda>e. ''Error extracting text from PDF: '' @ str_exn e)
       (\<lambda>e. ''Error: Could not extract text from document ('' @ str_exn e @ '')'')"

text \<open>\<open>meta.get(k)\<close> when it is truthy.\<close>

definition meta_get :: "(string \<times> string) list \<Rightarrow> string \<Rightarrow> string option" where
  "meta_get meta k =
     (case map_of meta k of None \<Rightarrow> None | Some v \<Rightarrow> if v = [] then None else Some v)"

definition pdf_standard_metadata :: "pdf_doc \<Rightarrow> metadata" where
  "pdf_standard_metadata doc =
     (case doc_metadata doc of
        None \<Rightarrow> []
      | Some meta \<Rightarrow>
          if meta = [] then []
          else (let metadata = [];
                    metadata = put_opt ''title'' (meta_get meta ''title'') metadata;
                    metadata = put_opt ''author'' (meta_get meta ''author'') metadata;
                    metadata = put_opt ''subject'' (meta_get meta ''subject'') metadata;
                    metadata = put_opt ''keywords'' (meta_get meta ''keywords'') metadata;
                    metadata = put_opt ''created'' (meta_get meta ''creationDate'') metadata;
                    metadata = put_opt ''modified'' (meta_get meta ''modDate'') metadata
                in metadata))"

definition pdf_extract_metadata ::
  "world \<Rightarrow> pdf_config \<Rightarrow> string \<Rightarrow> (exn + metadata) \<times> string list" where
  "pdf_extract_metadata env cfg file_path =
     try_except
       (case fitz_open env file_path of
          Inl e \<Rightarrow> (Inl e, [])
        | Inr doc \<Rightarrow>
            let metadata = pdf_standard_metadata doc;
                metadata = metadata @ [(''page_count'', str_nat (length (pages doc)))]
            in (case getsize env file_path of
                  Inl e \<Rightarrow> (Inl e, [])
                | Inr n \<Rightarrow>
                    let metadata = metadata @ [(''file_size'', str_nat n)];
                        (t, log) = pdf_extract_text env cfg file_path
                    in (case t of
                          Inl e \<Rightarrow> (Inl e, log)
                        | Inr full_text \<Rightarrow>
                            (case re_findall_words (word_char env) (PyStr full_text) of
                               Inl e \<Rightarrow> (Inl e, log)
                             | Inr ws \<Rightarrow>
                                 (Inr (metadata @ [(''word_count'', str_nat (length ws))]),
                                  log)))))
       CatchException
       (\<lambda>e. ''Error extracting metadata from PDF: '' @ str_exn e)
       (\<lambda>e. [(''error'', ''Could not extract metadata ('' @ str_exn e @ '')'')])"

text \<open>\<open>re.sub(r'\n{3,}', '\n\n', text)\<close>; \<open>k\<close> counts the newlines of the current run.\<close>

fun sub_newlines :: "nat \<Rightarrow> string \<Rightarrow> string" where
  "sub_newlines k [] = replicate (if 3 \<le> k then 2 else k) nl"
| "sub_newlines k (c # cs) =
     (if c = nl then sub_newlines (Suc k) cs
      else replicate (if 3 \<le> k then 2 else k) nl @ c # sub_newlines 0 cs)"

text \<open>\<open>text.split('\n\n')\<close>; \<open>cur\<close> is the piece being read.\<close>

fun split_nn :: "string \<Rightarrow> string \<Rightarrow> string list" where
  "split_nn cur [] = [cur]"
| "split_nn cur [c] = [cur @ [c]]"
| "split_nn cur (c # d # cs) =
     (if c = nl \<and> d = nl then cur # split_nn [] cs else split_nn (cur @ [c]) (d # cs))"

fun pdf_md_paragraphs :: "string list \<Rightarrow> string list \<Rightarrow> string list" where
  "pdf_md_paragraphs [] md = md"
| "pdf_md_paragraphs (paragraph # ps) md =
     pdf_md_paragraphs ps
       (if strip paragraph \<noteq> [] then md @ [strip paragraph @ [nl, nl]] else md)"

text \<open>The loop over the images of page \<open>page_num\<close> (counted from 0).\<close>

fun pdf_md_images ::
  "string \<Rightarrow> nat \<Rightarrow> nat \<Rightarrow> exn option list \<Rightarrow> string list \<Rightarrow> exn option \<times> string list" where
  "pdf_md_images name page_num img_idx [] md = (None, md)"
| "pdf_md_images name page_num img_idx (img # imgs) md =
     (case img of
        Some e \<Rightarrow> (Some e, md)
      | None \<Rightarrow>
          let img_filename =
                ''page'' @ str_nat (page_num + 1) @ ''_img'' @ str_nat (img_idx + 1) @ ''.png'';
              rel_path = path_join (name @ ''_images'') img_filename
          in pdf_md_images name page_num (img_idx + 1) imgs
               (md @ [''![Image '' @ str_nat (img_idx + 1) @ '' from page ''
                       @ str_nat (page_num + 1) @ ''](''  @ rel_path @ '')'' @ [nl, nl]]))"

text \<open>The loop over the pages in \<open>convert_to_markdown\<close>.\<close>

fun pdf_md_pages ::
  "world \<Rightarrow> pdf_config \<Rightarrow> string \<Rightarrow> string \<Rightarrow> nat \<Rightarrow> pdf_page list \<Rightarrow> string list \<Rightarrow> string list
     \<Rightarrow> exn option \<times> string list \<times> string list" where
  "pdf_md_pages env cfg output_dir name page_num [] md log = (None, md, log)"
| "pdf_md_pages env cfg output_dir name page_num (page # ps) md log =
     (let md = md @ [''## Page '' @ str_nat (page_num + 1) @ [nl, nl]] in
      case get_text page of
        Inl e \<Rightarrow> (Some e, md, log)
      | Inr text \<Rightarrow>
          let (text, l) = pdf_convert_page_text cfg page text;
              log = log @ l;
              text = sub_newlines 0 text;
              paragraphs = split_nn [] text;
              md = pdf_md_paragraphs paragraphs md
          in if extract_images cfg then
               (case makedirs env (path_join output_dir (name @ ''_images'')) of
                  Some e \<Rightarrow> (Some e, md, log)
                | None \<Rightarrow>
                    (case get_images page of
                       Inl e \<Rightarrow> (Some e, md, log)
                     | Inr image_list \<Rightarrow>
                         (case pdf_md_images name page_num 0 image_list md of
                            (Some e, md) \<Rightarrow> (Some e, md, log)
                          | (None, md) \<Rightarrow>
                              pdf_md_pages env cfg output_dir name (page_num + 1) ps md log)))
             else pdf_md_pages env cfg output_dir name (page_num + 1) ps md log)"

text \<open>\<open>metadata.get("title", name)\<close>\<close>

definition metadata_title :: "metadata \<Rightarrow> string \<Rightarrow> string" where
  "metadata_title metadata name =
     (case map_of metadata ''title'' of None \<Rightarrow> name | Some t \<Rightarrow> t)"

text \<open>The body of the \<open>try\<close> of \<open>PDFDocumentProcessor.convert_to_markdown\<close>.\<close>

definition pdf_convert_body ::
  "world \<Rightarrow> pdf_config \<Rightarrow> string \<Rightarrow> string \<Rightarrow> string \<Rightarrow> string
     \<Rightarrow> exn option \<times> string list option \<times> string list" where
  "pdf_convert_body env cfg file_path output_dir name output_path =
     (case fitz_open env file_path of
        Inl e \<Rightarrow> (Some e, None, [])
      | Inr doc \<Rightarrow>
          (case open_w env output_path of
             Some e \<Rightarrow> (Some e, None, [])
           | None \<Rightarrow>
               let (m, log) = pdf_extract_metadata env cfg file_path in
               (case m of
                  Inl e \<Rightarrow> (Some e, Some [], log)
                | Inr metadata \<Rightarrow>
                    let md = md_frontmatter metadata [];
                        title = metadata_title metadata name;
                        md = md @ [''# '' @ title @ [nl, nl]]
                    in (case pdf_md_pages env cfg output_dir name 0 (pages doc) md log of
                          (raised, md, log) \<Rightarrow> (raised, Some md, log)))))"

definition pdf_convert_to_markdown ::
  "world \<Rightarrow> pdf_config \<Rightarrow> string \<Rightarrow> string \<Rightarrow> conversion" where
  "pdf_convert_to_markdown env cfg file_path output_dir =
     (let filename = basename file_path;
          name = fst (splitext filename);
          output_path = path_join output_dir (name @ ''.md'');
          (raised, md, log) = pdf_convert_body env cfg file_path output_dir name output_path;
          (r, log) = try_except
             ((case raised of None \<Rightarrow> Inr output_path | Some e \<Rightarrow> Inl e), log) CatchException
             (\<lambda>e. ''Error converting PDF to Markdown: '' @ str_exn e)
             (\<lambda>e. ''Error: Could not convert document to Markdown ('' @ str_exn e @ '')'')
      in \<lparr>returned = r, md_file = md, logged = log\<rparr>)"

section \<open>process_directory of the two processors\<close>

text \<open>
  The two \<open>process_directory\<close> methods are the same loops around a different test of the
  file name and a different \<open>convert_to_markdown\<close>, here \<open>wanted\<close> and \<open>conv\<close>.  Besides
  \<open>processed_files\<close> the loops record each call of \<open>conv\<close>: the path and what it gave.
\<close>

fun dir_files ::
  "(string \<Rightarrow> bool) \<Rightarrow> (string \<Rightarrow> conversion) \<Rightarrow> string \<Rightarrow> string list \<Rightarrow> string list
     \<Rightarrow> (string \<times> conversion) list \<Rightarrow> exn option \<times> string list \<times> (string \<times> conversion) list"
  where
  "dir_files wanted conv root [] processed_files calls = (None, processed_files, calls)"
| "dir_files wanted conv root (file # files) processed_files calls =
     (if wanted file then
        (let file_path = path_join root file;
             c = conv file_path;
             calls = calls @ [(file_path, c)]
         in case returned c of
              Inl e \<Rightarrow> (Some e, processed_files, calls)
            | Inr result \<Rightarrow>
                dir_files wanted conv root files
                  (if \<not> startswith result ''Error'' then processed_files @ [result]
                   else processed_files)
                  calls)
      else dir_files wanted conv root files processed_files calls)"

fun dir_walk ::
  "(string \<Rightarrow> bool) \<Rightarrow> (string \<Rightarrow> conversion) \<Rightarrow> (string \<times> string list) list \<Rightarrow> string list
     \<Rightarrow> (string \<times> conversion) list \<Rightarrow> exn option \<times> string list \<times> (string \<times> conversion) list"
  where
  "dir_walk wanted conv [] processed_files calls = (None, processed_files, calls)"
| "dir_walk wanted conv ((root, files) # rest) processed_files calls =
     (case dir_files wanted conv root files processed_files calls of
        (Some e, processed_files, calls) \<Rightarrow> (Some e, processed_files, calls)
      | (None, processed_files, calls) \<Rightarrow> dir_walk wanted conv rest processed_files calls)"

definition process_directory ::
  "world \<Rightarrow> (string \<Rightarrow> bool) \<Rightarrow> (string \<Rightarrow> conversion) \<Rightarrow> string \<Rightarrow> string
     \<Rightarrow> (exn + string list) \<times> (string \<times> conversion) list" where
  "process_directory env wanted conv input_dir output_dir =
     (case (if \<not> path_exists env output_dir then makedirs env output_dir else None) of
        Some e \<Rightarrow> (Inl e, [])
      | None \<Rightarrow>
          (case dir_walk wanted conv (walk env input_dir) [] [] of
             (Some e, processed_files, calls) \<Rightarrow> (Inl e, calls)
           | (None, processed_files, calls) \<Rightarrow> (Inr processed_files, calls)))"

definition pdf_wanted :: "string \<Rightarrow> bool" where
  "pdf_wanted file = endswith (lower file) ''.pdf''"

definition word_wanted :: "string \<Rightarrow> bool" where
  "word_wanted file = (endswith (lower file) ''.docx'' \<or> endswith (lower file) ''.doc'')"

definition pdf_process_directory ::
  "world \<Rightarrow> pdf_config \<Rightarrow> string \<Rightarrow> string \<Rightarrow> (exn + string list) \<times> (string \<times> conversion) list"
  where
  "pdf_process_directory env cfg input_dir output_dir =
     process_directory env pdf_wanted
       (\<lambda>file_path. pdf_convert_to_markdown env cfg file_path output_dir) input_dir output_dir"

definition word_process_directory ::
  "world \<Rightarrow> word_config \<Rightarrow> string \<Rightarrow> string \<Rightarrow> (exn + string list) \<times> (string \<times> conversion) list"
  where
  "word_process_directory env cfg input_dir output_dir =
     process_directory env word_wanted
       (\<lambda>file_path. word_convert_to_markdown env cfg file_path output_dir) input_dir output_dir"

section \<open>universal_processor.py\<close>

definition default_config :: yaml where
  "default_config = YDict
     [(''log_level'', YStr ''INFO''),
      (''max_workers'', YInt 4),
      (''processors'', YDict
         [(''word'', YDict
            [(''enabled'', YBool True), (''chunk_size'', YInt 300), (''chunk_overlap'', YInt 100)]),
          (''pdf'', YDict
            [(''enabled'', YBool True), (''ocr_enabled'', YBool True),
             (''ocr_language'', YStr ''eng''), (''chunk_size'', YInt 300),
             (''chunk_overlap'', YInt 100), (''extract_images'', YBool False)])]),
      (''output_dir'', YStr ''input/markdown''),
      (''backup_dir'', YStr ''input/originals''),
      (''file_extensions'', YDict
         [(''word'', YList [YStr ''.docx'', YStr ''.doc'']),
          (''pdf'', YList [YStr ''.pdf''])])]"

text \<open>The inner loop of the merge: \<open>sub\<close> is \<open>config[key]\<close>.\<close>

fun merge_sub :: "(string \<times> yaml) list \<Rightarrow> yaml \<Rightarrow> exn + yaml" where
  "merge_sub [] sub = Inr sub"
| "merge_sub ((subkey, subvalue) # rest) sub =
     (case py_in subkey sub of
        Inl e \<Rightarrow> Inl e
      | Inr present \<Rightarrow>
          if \<not> present then
            (case py_setitem sub subkey subvalue of
               Inl e \<Rightarrow> Inl e
             | Inr sub \<Rightarrow> merge_sub rest sub)
          else merge_sub rest sub)"

text \<open>The outer loop, over \<open>default_config.items()\<close>.\<close>

fun merge_defaults :: "(string \<times> yaml) list \<Rightarrow> yaml \<Rightarrow> exn + yaml" where
  "merge_defaults [] config = Inr config"
| "merge_defaults ((key, val) # rest) config =
     (case py_in key config of
        Inl e \<Rightarrow> Inl e
      | Inr present \<Rightarrow>
          if \<not> present then
            (case py_setitem config key val of
               Inl e \<Rightarrow> Inl e
             | Inr config \<Rightarrow> merge_defaults rest config)
          else if is_dict val then
            (case py_getitem config key of
               Inl e \<Rightarrow> Inl e
             | Inr cur \<Rightarrow>
                 if is_dict cur then
                   (case merge_sub (dict_items val) cur of
                      Inl e \<Rightarrow> Inl e
                    | Inr cur \<Rightarrow>
                        (case py_setitem config key cur of
                           Inl e \<Rightarrow> Inl e
                         | Inr config \<Rightarrow> merge_defaults rest config))
                 else merge_defaults rest config)
          else merge_defaults rest config)"

text \<open>\<open>_load_config\<close>; \<open>yaml_load\<close> is \<open>open\<close> followed by \<open>yaml.safe_load\<close>.\<close>

definition load_config :: "world \<Rightarrow> string option \<Rightarrow> (exn + yaml) \<times> string list" where
  "load_config env config_path =
     (case config_path of
        None \<Rightarrow> (Inr default_config, [])
      | Some path \<Rightarrow>
          if path = [] \<or> \<not> path_exists env path then (Inr default_config, [])
          else try_except
                 (case yaml_load env path of
                    Inl e \<Rightarrow> (Inl e, [])
                  | Inr config \<Rightarrow> (merge_defaults (dict_items default_config) config, []))
                 CatchException
                 (\<lambda>e. ''Error loading config: '' @ str_exn e)
                 (\<lambda>e. default_config))"

datatype processor = WordDocumentProcessor word_config | PDFDocumentProcessor pdf_config

record universal =
  config :: yaml
  processors :: "(string \<times> processor) list"

definition convert_with :: "world \<Rightarrow> processor \<Rightarrow> string \<Rightarrow> string \<Rightarrow> conversion" where
  "convert_with env p file_path output_dir =
     (case p of
        WordDocumentProcessor cfg \<Rightarrow> word_convert_to_markdown env cfg file_path output_dir
      | PDFDocumentProcessor cfg \<Rightarrow> pdf_convert_to_markdown env cfg file_path output_dir)"

text \<open>The loop of \<open>_get_processor_for_file\<close>; \<open>None\<close> is the pair \<open>(None, None)\<close>.\<close>

fun find_processor ::
  "(string \<times> processor) list \<Rightarrow> string \<Rightarrow> (string \<times> yaml) list
     \<Rightarrow> exn + (string \<times> processor) option" where
  "find_processor procs ext [] = Inr None"
| "find_processor procs ext ((processor_type, extensions) # rest) =
     (case py_in ext extensions of
        Inl e \<Rightarrow> Inl e
      | Inr hit \<Rightarrow>
          (case (if hit then map_of procs processor_type else None) of
             Some p \<Rightarrow> Inr (Some (processor_type, p))
           | None \<Rightarrow> find_processor procs ext rest))"

definition get_processor_for_file ::
  "universal \<Rightarrow> string \<Rightarrow> exn + (string \<times> processor) option" where
  "get_processor_for_file u file_path =
     (let ext = lower (snd (splitext file_path)) in
      case py_getitem (config u) ''file_extensions'' of
        Inl e \<Rightarrow> Inl e
      | Inr exts \<Rightarrow>
          (case py_items exts of
             Inl e \<Rightarrow> Inl e
           | Inr items \<Rightarrow> find_processor (processors u) ext items))"

text \<open>The dictionary \<open>result\<close> of \<open>process_file\<close>; \<open>duration\<close> is a key added on success.\<close>

record file_result =
  res_file :: string
  success :: bool
  output_path :: "string option"
  processor_type :: "string option"
  error :: "string option"
  has_duration :: bool

text \<open>\<open>os.makedirs(d, exist_ok=True)\<close> on a value of the configuration.\<close>

fun makedirs_value :: "world \<Rightarrow> yaml \<Rightarrow> exn option" where
  "makedirs_value env (YStr d) = makedirs env d"
| "makedirs_value env v = Some (Exn TypeError ''expected str, bytes or os.PathLike object'')"

text \<open>The backup of the original after a successful conversion.\<close>

definition backup_original :: "world \<Rightarrow> universal \<Rightarrow> string \<Rightarrow> exn option" where
  "backup_original env u file_path =
     (case py_get (config u) ''backup_dir'' of
        Inl e \<Rightarrow> Some e
      | Inr None \<Rightarrow> None
      | Inr (Some b) \<Rightarrow>
          if truthy b then
            (case py_getitem (config u) ''backup_dir'' of
               Inl e \<Rightarrow> Some e
             | Inr backup_dir \<Rightarrow>
                 (case makedirs_value env backup_dir of
                    Some e \<Rightarrow> Some e
                  | None \<Rightarrow>
                      (case backup_dir of
                         YStr d \<Rightarrow> copy2 env file_path (path_join d (basename file_path))
                       | _ \<Rightarrow> Some (Exn TypeError ''expected str, bytes or os.PathLike object''))))
          else None)"

text \<open>
  The body of the \<open>try\<close> of \<open>process_file\<close>, started on the initial \<open>result\<close>: the
  exception that leaves it, if any, and \<open>result\<close> as it is then.
\<close>

definition process_file_body ::
  "world \<Rightarrow> universal \<Rightarrow> string \<Rightarrow> file_result \<Rightarrow> exn option \<times> file_result" where
  "process_file_body env u file_path result =
     (case py_getitem (config u) ''output_dir'' of
        Inl e \<Rightarrow> (Some e, result)
      | Inr output_dir \<Rightarrow>
          (case makedirs_value env output_dir of
             Some e \<Rightarrow> (Some e, result)
           | None \<Rightarrow>
               (case get_processor_for_file u file_path of
                  Inl e \<Rightarrow> (Some e, result)
                | Inr None \<Rightarrow>
                    (let result = result\<lparr>processor_type := None\<rparr>;
                         result = result\<lparr>error :=
                                    Some (''No suitable processor found for '' @ file_path)\<rparr>
                     in (None, result))
                | Inr (Some (ptype, p)) \<Rightarrow>
                    (let result = result\<lparr>processor_type := Some ptype\<rparr> in
                     case returned (convert_with env p file_path (case output_dir of YStr d \<Rightarrow> d | _ \<Rightarrow> [])) of
                       Inl e \<Rightarrow> (Some e, result)
                     | Inr out \<Rightarrow>
                         if \<not> startswith out ''Error'' then
                           (let result = result\<lparr>success := True\<rparr>;
                                result = result\<lparr>output_path := Some out\<rparr>;
                                result = result\<lparr>has_duration := True\<rparr>
                            in (backup_original env u file_path, result))
                         else (None, result\<lparr>error := Some out\<rparr>)))))"

definition process_file :: "world \<Rightarrow> universal \<Rightarrow> string \<Rightarrow> exn + file_result" where
  "process_file env u file_path =
     (let result = \<lparr>res_file = file_path, success = False, output_path = None,
                     processor_type = None, error = None, has_duration = False\<rparr>
      in case process_file_body env u file_path result of
           (None, result) \<Rightarrow> Inr result
         | (Some e, result) \<Rightarrow>
             if handles CatchException e then Inr (result\<lparr>error := Some (str_exn e)\<rparr>)
             else Inl e)"

text \<open>
  \<open>process_directory\<close> hands every file to a \<open>ThreadPoolExecutor(max_workers)\<close> and
  collects the results as the futures complete.  A state of the pool: the files not yet
  taken by a worker, the files whose \<open>process_file\<close> is running, and \<open>results\<close>.  A
  worker that is free takes the next file; any running call may be the next to complete.
  \<open>run_file\<close> is what the loop appends for a file: the result of \<open>process_file\<close>, or the
  dictionary built from the exception.
\<close>

record pool =
  pending :: "string list"
  running :: "string list"
  results :: "file_result list"

definition run_file :: "world \<Rightarrow> universal \<Rightarrow> string \<Rightarrow> file_result" where
  "run_file env u file =
     (case process_file env u file of
        Inr result \<Rightarrow> result
      | Inl e \<Rightarrow> \<lparr>res_file = file, success = False, output_path = None,
                  processor_type = None, error = Some (str_exn e), has_duration = False\<rparr>)"

inductive pool_step :: "nat \<Rightarrow> (string \<Rightarrow> file_result) \<Rightarrow> pool \<Rightarrow> pool \<Rightarrow> bool"
  for max_workers :: nat and run :: "string \<Rightarrow> file_result" where
  take: "pending s = file # files \<Longrightarrow> length (running s) < max_workers \<Longrightarrow>
         pool_step max_workers run s (s\<lparr>pending := files, running := running s @ [file]\<rparr>)"
| complete: "file \<in> set (running s) \<Longrightarrow>
         pool_step max_workers run s
           (s\<lparr>running := remove1 file (running s), results := results s @ [run file]\<rparr>)"

inductive pool_reach :: "nat \<Rightarrow> (string \<Rightarrow> file_result) \<Rightarrow> pool \<Rightarrow> pool \<Rightarrow> bool"
  for max_workers :: nat and run :: "string \<Rightarrow> file_result" where
  start: "pool_reach max_workers run s s"
| step: "pool_reach max_workers run s t \<Longrightarrow> pool_step max_workers run t t' \<Longrightarrow>
         pool_reach max_workers run s t'"

definition submitted :: "string list \<Rightarrow> pool" where
  "submitted files_to_process = \<lparr>pending = files_to_process, running = [], results = []\<rparr>"

section \<open>appUI_final_v5.py\<close>

record found_doc =
  doc_id :: string
  content :: string

fun doc_contents :: "found_doc list \<Rightarrow> string list \<Rightarrow> string list" where
  "doc_contents [] acc = acc"
| "doc_contents (d # ds) acc =
     doc_contents ds (acc @ [''Document: '' @ doc_id d @ [nl] @ ''Content: '' @ content d])"

text \<open>
  \<open>search_docs\<close>; \<open>search_kg\<close> stands for building the parameters and the searcher and
  calling \<open>search.search_kg\<close>, and gives \<open>local_results\<close>.  The second component is what
  the handler prints.
\<close>

definition search_docs ::
  "(string \<Rightarrow> exn + found_doc list) \<Rightarrow> string \<Rightarrow> (exn + string) \<times> string list" where
  "search_docs search_kg query =
     try_except
       (case search_kg query of
          Inl e \<Rightarrow> (Inl e, [])
        | Inr local_results \<Rightarrow>
            if local_results \<noteq> [] then (Inr (join [nl, nl] (doc_contents local_results [])), [])
            else (Inr ''No relevant documents found.'', []))
       CatchRequestException
       (\<lambda>e. ''Error searching documents: '' @ str_exn e)
       (\<lambda>e. ''Error searching documents: '' @ str_exn e)"

section \<open>The formats the converters are to produce\<close>

text \<open>
  The text of a page as the description of the OCR fallback has it: the OCR result
  replaces the native text exactly when OCR is enabled and the native text is
  whitespace-only or shorter than 50 characters.
\<close>

definition whitespace_only :: "string \<Rightarrow> bool" where
  "whitespace_only s = list_all isspace s"

definition ocr_text :: "pdf_page \<Rightarrow> string" where
  "ocr_text page = (case ocr page of Inr t \<Rightarrow> t | Inl e \<Rightarrow> [])"

definition ocr_fallback_text :: "pdf_config \<Rightarrow> pdf_page \<Rightarrow> string \<Rightarrow> string" where
  "ocr_fallback_text cfg page native =
     (if ocr_enabled cfg \<and> (whitespace_only native \<or> length native < 50) then ocr_text page
      else native)"

definition native_text :: "pdf_page \<Rightarrow> string" where
  "native_text page = (case get_text page of Inr t \<Rightarrow> t | Inl e \<Rightarrow> [])"

definition page_text :: "pdf_config \<Rightarrow> pdf_page \<Rightarrow> string" where
  "page_text cfg page = ocr_fallback_text cfg page (native_text page)"

text \<open>The front matter: a line per entry of the metadata that has a non-blank value.\<close>

definition frontmatter_block :: "metadata \<Rightarrow> string list" where
  "frontmatter_block metadata =
     [''---'' @ [nl]]
     @ map (\<lambda>(key, val). key @ '': '' @ val @ [nl])
         (filter (\<lambda>(key, val). val \<noteq> [] \<and> strip val \<noteq> []) metadata)
     @ [''---'' @ [nl, nl]]"

text \<open>
  The section of page \<open>N\<close> (counted from 1): its heading, its non-empty paragraphs, each
  stripped and followed by a blank line, and the references to its images when images are
  extracted.
\<close>

definition page_paragraphs :: "string \<Rightarrow> string list" where
  "page_paragraphs text =
     filter (\<lambda>q. q \<noteq> []) (map strip (split_nn [] (sub_newlines 0 text)))"

definition image_ref :: "string \<Rightarrow> nat \<Rightarrow> nat \<Rightarrow> string" where
  "image_ref name N j =
     ''![Image '' @ str_nat j @ '' from page '' @ str_nat N @ ''](''
       @ name @ ''_images/page'' @ str_nat N @ ''_img'' @ str_nat j @ ''.png'' @ '')'' @ [nl, nl]"

definition page_images :: "pdf_page \<Rightarrow> nat" where
  "page_images page = (case get_images page of Inr l \<Rightarrow> length l | Inl e \<Rightarrow> 0)"

definition page_section :: "pdf_config \<Rightarrow> string \<Rightarrow> nat \<Rightarrow> pdf_page \<Rightarrow> string list" where
  "page_section cfg name N page =
     (''## Page '' @ str_nat N @ [nl, nl])
     # map (\<lambda>q. q @ [nl, nl]) (page_paragraphs (page_text cfg page))
     @ (if extract_images cfg then map (image_ref name N) [1..<Suc (page_images page)] else [])"

definition pdf_metadata :: "world \<Rightarrow> pdf_config \<Rightarrow> string \<Rightarrow> metadata" where
  "pdf_metadata env cfg file_path =
     (case fst (pdf_extract_metadata env cfg file_path) of Inr m \<Rightarrow> m | Inl e \<Rightarrow> [])"

definition pdf_markdown :: "world \<Rightarrow> pdf_config \<Rightarrow> string \<Rightarrow> pdf_doc \<Rightarrow> string list" where
  "pdf_markdown env cfg file_path doc =
     (let name = fst (splitext (basename file_path));
          metadata = pdf_metadata env cfg file_path
      in frontmatter_block metadata
         @ [''# '' @ metadata_title metadata name @ [nl, nl]]
         @ concat (map (\<lambda>(page_num, page). page_section cfg name (page_num + 1) page)
                     (enumerate 0 (pages doc))))"

section \<open>Properties\<close>

lemma word_extract_text_tuple:
  "\<exists>s xs log. word_extract_text env cfg file_path = (Inr (PyTuple s xs), log)"
  by (auto simp: word_extract_text_def word_extract_text_body_def try_except_def Let_def
      split: sum.splits)

lemma word_extract_metadata_body_raises:
  "\<exists>e log. word_extract_metadata_body env cfg file_path = (Inl e, log)"
proof (cases "Document env file_path")
  case (Inl e)
  then show ?thesis by (simp add: word_extract_metadata_body_def)
next
  case (Inr doc)
  obtain s xs log where "word_extract_text env cfg file_path = (Inr (PyTuple s xs), log)"
    using word_extract_text_tuple by blast
  with Inr show ?thesis by (simp add: word_extract_metadata_body_def)
qed

text \<open>
  Claim C8.  For every file path, \<open>WordDocumentProcessor.extract_metadata\<close> returns
  (never raises) a dictionary whose only key is \<open>"error"\<close>: \<open>extract_text\<close> returns a
  tuple on both of its paths, \<open>re.findall\<close> raises on it, and the handler replaces the
  metadata collected so far by the error dictionary.
\<close>

theorem word_extract_metadata_only_error:
  "\<exists>msg. fst (word_extract_metadata env cfg file_path) = Inr [(''error'', msg)]"
proof -
  obtain e log where "word_extract_metadata_body env cfg file_path = (Inl e, log)"
    using word_extract_metadata_body_raises by blast
  then show ?thesis
    by (simp add: word_extract_metadata_def try_except_def)
qed

subsection \<open>The converters return, and what they return\<close>

lemma pdf_convert_body_written:
  "pdf_convert_body env cfg file_path output_dir name opath = (None, md, log) \<Longrightarrow> \<exists>ws. md = Some ws"
  by (auto simp: pdf_convert_body_def Let_def split: sum.splits option.splits prod.splits)

lemma word_convert_body_written:
  "word_convert_body env cfg file_path opath = (None, md, log) \<Longrightarrow> \<exists>ws. md = Some ws"
  by (auto simp: word_convert_body_def Let_def split: sum.splits option.splits prod.splits)

lemma startswith_append [simp]: "startswith (p @ s) p"
  by (simp add: startswith_def)

lemma pdf_convert_cases:
  assumes "pdf_convert_body env cfg file_path output_dir (fst (splitext (basename file_path)))
             (md_output_path file_path output_dir) = (raised, md, log)"
  shows "pdf_convert_to_markdown env cfg file_path output_dir =
           (case raised of
              None \<Rightarrow> \<lparr>returned = Inr (md_output_path file_path output_dir), md_file = md, logged = log\<rparr>
            | Some e \<Rightarrow> \<lparr>returned = Inr (''Error: Could not convert document to Markdown ('' @ str_exn e @ '')''),
                         md_file = md, logged = log @ [''Error converting PDF to Markdown: '' @ str_exn e]\<rparr>)"
  using assms
  by (simp add: pdf_convert_to_markdown_def md_output_path_def Let_def try_except_def split: option.splits)

lemma word_convert_cases:
  assumes "word_convert_body env cfg file_path (md_output_path file_path output_dir) = (raised, md, log)"
  shows "word_convert_to_markdown env cfg file_path output_dir =
           (case raised of
              None \<Rightarrow> \<lparr>returned = Inr (md_output_path file_path output_dir), md_file = md, logged = log\<rparr>
            | Some e \<Rightarrow> \<lparr>returned = Inr (''Error: Could not convert document to Markdown ('' @ str_exn e @ '')''),
                         md_file = md, logged = log @ [''Error converting Word document to Markdown: '' @ str_exn e]\<rparr>)"
  using assms
  by (simp add: word_convert_to_markdown_def Let_def try_except_def split: option.splits)

text \<open>
  Claim C1.  Neither \<open>convert_to_markdown\<close> propagates an exception.  Each returns the
  path of the markdown file, which then has been written, or the exception that left the
  body has been logged and the string returned is
  \<open>"Error: Could not convert document to Markdown (...)"\<close>, which starts with \<open>"Error"\<close>.
\<close>

theorem convert_to_markdown_never_raises:
  "((\<exists>ws. returned (pdf_convert_to_markdown env pcfg file_path output_dir)
            = Inr (md_output_path file_path output_dir)
        \<and> md_file (pdf_convert_to_markdown env pcfg file_path output_dir) = Some ws)
    \<or> (\<exists>e r l. returned (pdf_convert_to_markdown env pcfg file_path output_dir) = Inr r
        \<and> r = ''Error: Could not convert document to Markdown ('' @ str_exn e @ '')''
        \<and> startswith r ''Error''
        \<and> logged (pdf_convert_to_markdown env pcfg file_path output_dir)
            = l @ [''Error converting PDF to Markdown: '' @ str_exn e]))
   \<and>
   ((\<exists>ws. returned (word_convert_to_markdown env wcfg file_path output_dir)
            = Inr (md_output_path file_path output_dir)
        \<and> md_file (word_convert_to_markdown env wcfg file_path output_dir) = Some ws)
    \<or> (\<exists>e r l. returned (word_convert_to_markdown env wcfg file_path output_dir) = Inr r
        \<and> r = ''Error: Could not convert document to Markdown ('' @ str_exn e @ '')''
        \<and> startswith r ''Error''
        \<and> logged (word_convert_to_markdown env wcfg file_path output_dir)
            = l @ [''Error converting Word document to Markdown: '' @ str_exn e]))"
proof
  obtain raised md log where b:
    "pdf_convert_body env pcfg file_path output_dir (fst (splitext (basename file_path)))
       (md_output_path file_path output_dir) = (raised, md, log)"
    by (metis prod_cases3)
  show "(\<exists>ws. returned (pdf_convert_to_markdown env pcfg file_path output_dir)
            = Inr (md_output_path file_path output_dir)
        \<and> md_file (pdf_convert_to_markdown env pcfg file_path output_dir) = Some ws)
    \<or> (\<exists>e r l. returned (pdf_convert_to_markdown env pcfg file_path output_dir) = Inr r
        \<and> r = ''Error: Could not convert document to Markdown ('' @ str_exn e @ '')''
        \<and> startswith r ''Error''
        \<and> logged (pdf_convert_to_markdown env pcfg file_path output_dir)
            = l @ [''Error converting PDF to Markdown: '' @ str_exn e])"
  proof (cases raised)
    case None
    with b obtain ws where "md = Some ws" using pdf_convert_body_written by blast
    with None show ?thesis by (simp add: pdf_convert_cases [OF b])
  next
    case (Some e)
    then show ?thesis
      by (intro disjI2 exI [of _ e]) (simp add: pdf_convert_cases [OF b] startswith_def)
  qed
next
  obtain raised md log where b:
    "word_convert_body env wcfg file_path (md_output_path file_path output_dir) = (raised, md, log)"
    by (metis prod_cases3)
  show "(\<exists>ws. returned (word_convert_to_markdown env wcfg file_path output_dir)
            = Inr (md_output_path file_path output_dir)
        \<and> md_file (word_convert_to_markdown env wcfg file_path output_dir) = Some ws)
    \<or> (\<exists>e r l. returned (word_convert_to_markdown env wcfg file_path output_dir) = Inr r
        \<and> r = ''Error: Could not convert document to Markdown ('' @ str_exn e @ '')''
        \<and> startswith r ''Error''
        \<and> logged (word_convert_to_markdown env wcfg file_path output_dir)
            = l @ [''Error converting Word document to Markdown: '' @ str_exn e])"
  proof (cases raised)
    case None
    with b obtain ws where "md = Some ws" using word_convert_body_written by blast
    with None show ?thesis by (simp add: word_convert_cases [OF b])
  next
    case (Some e)
    then show ?thesis
      by (intro disjI2 exI [of _ e]) (simp add: word_convert_cases [OF b] startswith_def)
  qed
qed

end
